theory Spec2Isabelle
  imports Complex_Main "HOL-Library.AList" "HOL-Library.Product_Lexorder"
begin

section \<open>Values and errors\<close>

text \<open>
  The persisted documents are JSON. A parsed document is a value of \<open>json\<close>; a Python
  \<open>dict\<close> is an association list in insertion order whose keys are distinct, a Python
  \<open>list\<close> is a list. JSON numbers with a fraction or an exponent (Python floats) are
  not represented.
\<close>

datatype json =
    JNull
  | JBool bool
  | JInt int
  | JStr string
  | JList "json list"
  | JObj "(string \<times> json) list"

text \<open>The exceptions the modelled code raises or meets.\<close>

datatype error =
    FileNotFoundError
  | PermissionError
  | JSONDecodeError
  | ValueError
  | AttributeError
  | TypeError
  | Full
  | ClientError
  | ConnectionError
  | KeyError
  | UnicodeDecodeError

section \<open>Vote store (src/app.py, class DataStore)\<close>

text \<open>
  What is at a path: nothing, a file that cannot be opened for reading, a file whose
  text \<open>json.load\<close> rejects, or a file holding the text of a JSON value. Writing a value
  with \<open>json.dump\<close> and parsing it back with \<open>json.load\<close> gives the value again, so
  a written file is represented by the value it holds.
\<close>

datatype disk_file = Absent | Unreadable | Garbage | Doc json

text \<open>
  The store object: the file at \<open>self.path\<close> and the file at \<open>self.path\<close> with the
  suffix \<open>.tmp\<close>. The lock is not modelled: calls run one after the other. Writes to the
  disk are taken to succeed.
\<close>

record DataStore =
  path_file :: disk_file
  tmp_file :: disk_file

definition empty_log :: json where
  "empty_log = JObj [(''landings'', JList [])]"

fun exists_file :: "disk_file \<Rightarrow> bool" where
  "exists_file Absent = False"
| "exists_file _ = True"

text \<open>\<open>with path.open("r") as f: json.load(f)\<close>\<close>

fun load_file :: "disk_file \<Rightarrow> error + json" where
  "load_file Absent = Inl FileNotFoundError"
| "load_file Unreadable = Inl PermissionError"
| "load_file Garbage = Inl JSONDecodeError"
| "load_file (Doc j) = Inr j"

text \<open>
  \<open>_atomic_write\<close>: dump to the temporary file, then \<open>os.replace\<close> it over the target.
\<close>

definition atomic_write :: "DataStore \<Rightarrow> json \<Rightarrow> DataStore" where
  "atomic_write d data =
     (let d1 = d\<lparr>tmp_file := Doc data\<rparr>
      in d1\<lparr>path_file := tmp_file d1, tmp_file := Absent\<rparr>)"

text \<open>
  The check of \<open>_ensure_file\<close>:
  \<open>not isinstance(data, dict) or "landings" not in data or not isinstance(data["landings"], list)\<close>
  raises \<open>ValueError\<close>.
\<close>

fun check_structure :: "json \<Rightarrow> error + unit" where
  "check_structure (JObj kvs) =
     (case map_of kvs ''landings'' of
        None \<Rightarrow> Inl ValueError
      | Some (JList xs) \<Rightarrow> Inr ()
      | Some _ \<Rightarrow> Inl ValueError)"
| "check_structure _ = Inl ValueError"

definition ensure_file :: "DataStore \<Rightarrow> DataStore" where
  "ensure_file d =
     (if \<not> exists_file (path_file d) then atomic_write d empty_log
      else (case load_file (path_file d) of
              Inl e \<Rightarrow> atomic_write d empty_log
            | Inr data \<Rightarrow>
                (case check_structure data of
                   Inl e \<Rightarrow> atomic_write d empty_log
                 | Inr u \<Rightarrow> d)))"

text \<open>\<open>DataStore.__init__\<close>: creating the directory leaves both files as they are.\<close>

definition DataStore_init :: "DataStore \<Rightarrow> DataStore" where
  "DataStore_init d = ensure_file d"

definition read :: "DataStore \<Rightarrow> error + json" where
  "read d = load_file (path_file d)"

text \<open>
  \<open>data.setdefault("landings", []).append(rec)\<close>: \<open>setdefault\<close> exists on a dict only,
  \<open>append\<close> on a list only; a new key goes to the end of the dict.
\<close>

fun setdefault_append :: "json \<Rightarrow> json \<Rightarrow> error + json" where
  "setdefault_append (JObj kvs) r =
     (case map_of kvs ''landings'' of
        None \<Rightarrow> Inr (JObj (kvs @ [(''landings'', JList [r])]))
      | Some (JList xs) \<Rightarrow> Inr (JObj (AList.update ''landings'' (JList (xs @ [r])) kvs))
      | Some _ \<Rightarrow> Inl AttributeError)"
| "setdefault_append _ r = Inl AttributeError"

definition landing :: "int \<Rightarrow> string \<Rightarrow> json" where
  "landing score ts = JObj [(''score'', JInt score), (''ts'', JStr ts)]"

definition append :: "DataStore \<Rightarrow> int \<Rightarrow> string \<Rightarrow> error + DataStore" where
  "append d score ts =
     (let data = (case read d of Inl e \<Rightarrow> empty_log | Inr j \<Rightarrow> j)
      in case setdefault_append data (landing score ts) of
           Inl e \<Rightarrow> Inl e
         | Inr data' \<Rightarrow> Inr (atomic_write d data'))"

definition DataStore_reset :: "DataStore \<Rightarrow> DataStore" where
  "DataStore_reset d = atomic_write d empty_log"

text \<open>
  \<open>get_landings\<close>: \<open>data.get("landings", [])\<close> exists on a dict only; a value that is
  not a list is answered by the empty list.
\<close>

fun landings_of :: "json \<Rightarrow> error + json list" where
  "landings_of (JObj kvs) =
     (case map_of kvs ''landings'' of
        None \<Rightarrow> Inr []
      | Some (JList xs) \<Rightarrow> Inr xs
      | Some _ \<Rightarrow> Inr [])"
| "landings_of _ = Inl AttributeError"

definition get_landings :: "DataStore \<Rightarrow> error + json list" where
  "get_landings d =
     (let data = (case read d of Inl e \<Rightarrow> empty_log | Inr j \<Rightarrow> j)
      in landings_of data)"

text \<open>A sequence of \<open>append\<close> calls; the first call that raises ends the sequence.\<close>

fun appends :: "DataStore \<Rightarrow> (int \<times> string) list \<Rightarrow> error + DataStore" where
  "appends d [] = Inr d"
| "appends d ((score, ts) # rs) =
     (case append d score ts of Inl e \<Rightarrow> Inl e | Inr d' \<Rightarrow> appends d' rs)"

section \<open>Stats (src/app.py, compute_stats)\<close>

text \<open>
  \<open>int(v)\<close> for a value read from a record. On a string Python parses an integer
  literal; that parser is the parameter \<open>int_of_str\<close>, which answers \<open>None\<close> where
  Python raises \<open>ValueError\<close>.
\<close>

fun py_int :: "(string \<Rightarrow> int option) \<Rightarrow> json \<Rightarrow> error + int" where
  "py_int int_of_str (JInt n) = Inr n"
| "py_int int_of_str (JBool b) = Inr (if b then 1 else 0)"
| "py_int int_of_str (JStr s) =
     (case int_of_str s of None \<Rightarrow> Inl ValueError | Some n \<Rightarrow> Inr n)"
| "py_int int_of_str JNull = Inl TypeError"
| "py_int int_of_str (JList xs) = Inl TypeError"
| "py_int int_of_str (JObj kvs) = Inl TypeError"

text \<open>\<open>int(x.get("score", 0))\<close>: \<open>get\<close> exists on a dict only.\<close>

fun score_of :: "(string \<Rightarrow> int option) \<Rightarrow> json \<Rightarrow> error + int" where
  "score_of int_of_str (JObj kvs) =
     (case map_of kvs ''score'' of
        None \<Rightarrow> py_int int_of_str (JInt 0)
      | Some v \<Rightarrow> py_int int_of_str v)"
| "score_of int_of_str _ = Inl AttributeError"

text \<open>The list comprehension: the first record that raises ends it.\<close>

fun scores_of :: "(string \<Rightarrow> int option) \<Rightarrow> json list \<Rightarrow> error + int list" where
  "scores_of int_of_str [] = Inr []"
| "scores_of int_of_str (x # xs) =
     (case score_of int_of_str x of
        Inl e \<Rightarrow> Inl e
      | Inr s \<Rightarrow>
          (case scores_of int_of_str xs of
             Inl e \<Rightarrow> Inl e
           | Inr ss \<Rightarrow> Inr (s # ss)))"

text \<open>
  \<open>average\<close> is a Python float, \<open>round(sum(scores) / count, 2)\<close> or \<open>0.0\<close>. The float
  is not computed here: the field keeps the two integers it is computed from.
\<close>

datatype average_value = Float_zero | Round2_div int nat

record StatsView =
  stats_count :: nat
  stats_average :: average_value
  stats_best :: int
  stats_recent :: "int list"
  stats_top :: "int list"

fun py_max :: "int list \<Rightarrow> int" where
  "py_max [] = 0"
| "py_max (x # xs) = fold max xs x"

definition stats_of_scores :: "int list \<Rightarrow> StatsView" where
  "stats_of_scores scores =
     (let count = length scores;
          average = (if count \<noteq> 0 then Round2_div (sum_list scores) count else Float_zero);
          best = (if scores \<noteq> [] then py_max scores else 0);
          recent = rev (drop (length scores - 10) scores);
          indexed = sort_key (\<lambda>(idx, score). (- score, idx)) (enumerate 0 scores);
          top = map snd (take 5 indexed)
      in \<lparr>stats_count = count, stats_average = average, stats_best = best,
          stats_recent = recent, stats_top = top\<rparr>)"

definition compute_stats :: "(string \<Rightarrow> int option) \<Rightarrow> json list \<Rightarrow> error + StatsView" where
  "compute_stats int_of_str landings =
     (case scores_of int_of_str landings of
        Inl e \<Rightarrow> Inl e
      | Inr scores \<Rightarrow> Inr (stats_of_scores scores))"

section \<open>Broadcast hub (src/app.py and src/main.py, class SSEHub)\<close>

text \<open>
  A \<open>queue.Queue\<close>: its identity, its \<open>maxsize\<close> (0 means unbounded) and the items
  waiting in it, oldest first.
\<close>

record 'p Queue =
  qid :: nat
  maxsize :: nat
  queue :: "'p list"

text \<open>\<open>put_nowait\<close> raises \<open>Full\<close> when \<open>0 < maxsize \<le> qsize\<close>, and never waits.\<close>

definition put_nowait :: "'p Queue \<Rightarrow> 'p \<Rightarrow> error + 'p Queue" where
  "put_nowait q item =
     (if 0 < maxsize q \<and> maxsize q \<le> length (queue q) then Inl Full
      else Inr (q\<lparr>queue := queue q @ [item]\<rparr>))"

record 'p SSEHub =
  clients :: "'p Queue list"
  next_qid :: nat

definition register :: "'p SSEHub \<Rightarrow> 'p Queue \<times> 'p SSEHub" where
  "register h =
     (let q = \<lparr>qid = next_qid h, maxsize = 0, queue = []\<rparr>
      in (q, h\<lparr>clients := clients h @ [q], next_qid := Suc (next_qid h)\<rparr>))"

text \<open>\<open>list.remove\<close> takes out the first occurrence of the object, if there is one.\<close>

fun remove_queue :: "nat \<Rightarrow> 'p Queue list \<Rightarrow> 'p Queue list" where
  "remove_queue i [] = []"
| "remove_queue i (q # qs) = (if qid q = i then qs else q # remove_queue i qs)"

definition unregister :: "'p SSEHub \<Rightarrow> nat \<Rightarrow> 'p SSEHub" where
  "unregister h i = h\<lparr>clients := remove_queue i (clients h)\<rparr>"

text \<open>
  The loop of \<open>broadcast\<close> over the snapshot of the clients, with its
  \<open>try: q.put_nowait(payload) except Exception: pass\<close>.
\<close>

fun broadcast_loop :: "'p Queue list \<Rightarrow> 'p \<Rightarrow> 'p Queue list" where
  "broadcast_loop [] payload = []"
| "broadcast_loop (q # qs) payload =
     (case put_nowait q payload of Inl e \<Rightarrow> q | Inr q' \<Rightarrow> q') # broadcast_loop qs payload"

definition broadcast :: "'p SSEHub \<Rightarrow> 'p \<Rightarrow> 'p SSEHub" where
  "broadcast h payload = h\<lparr>clients := broadcast_loop (clients h) payload\<rparr>"


section \<open>Strings\<close>

text \<open>
  Python strings are modelled as their UTF-8 bytes. The character tests below are the
  ASCII part of Python's: \<open>str.strip\<close>, \<open>str.split\<close>, \<open>str.lower\<close>,
  \<open>str.isalpha\<close>, \<open>str.isalnum\<close>.
\<close>

definition is_space :: "char \<Rightarrow> bool" where
  "is_space c = (c \<in> set [CHR '' '', CHR 0x09, CHR 0x0A, CHR 0x0B, CHR 0x0C, CHR 0x0D,
                          CHR 0x1C, CHR 0x1D, CHR 0x1E, CHR 0x1F])"

definition strip :: "string \<Rightarrow> string" where
  "strip s = rev (dropWhile is_space (rev (dropWhile is_space s)))"

definition is_upper :: "char \<Rightarrow> bool" where
  "is_upper c = (65 \<le> (of_char c :: nat) \<and> (of_char c :: nat) \<le> 90)"

definition is_lower :: "char \<Rightarrow> bool" where
  "is_lower c = (97 \<le> (of_char c :: nat) \<and> (of_char c :: nat) \<le> 122)"

definition is_digit :: "char \<Rightarrow> bool" where
  "is_digit c = (48 \<le> (of_char c :: nat) \<and> (of_char c :: nat) \<le> 57)"

definition lower :: "string \<Rightarrow> string" where
  "lower s = map (\<lambda>c. if is_upper c then char_of ((of_char c :: nat) + 32) else c) s"

definition isalpha :: "string \<Rightarrow> bool" where
  "isalpha s = (s \<noteq> [] \<and> list_all (\<lambda>c. is_upper c \<or> is_lower c) s)"

definition isalnum_char :: "char \<Rightarrow> bool" where
  "isalnum_char c = (is_upper c \<or> is_lower c \<or> is_digit c)"

fun split_from :: "string \<Rightarrow> string \<Rightarrow> string list" where
  "split_from cur [] = (if cur = [] then [] else [cur])"
| "split_from cur (c # cs) =
     (if is_space c then (if cur = [] then split_from [] cs else cur # split_from [] cs)
      else split_from (cur @ [c]) cs)"

text \<open>\<open>s.split()\<close>: the maximal runs of characters that are not whitespace.\<close>

definition split :: "string \<Rightarrow> string list" where
  "split s = split_from [] s"

fun startswith :: "string \<Rightarrow> string \<Rightarrow> bool" where
  "startswith s [] = True"
| "startswith [] (p # ps) = False"
| "startswith (c # cs) (p # ps) = (c = p \<and> startswith cs ps)"

text \<open>\<open>sub in s\<close>\<close>

fun contains :: "string \<Rightarrow> string \<Rightarrow> bool" where
  "contains [] sub = (sub = [])"
| "contains (c # cs) sub = (startswith (c # cs) sub \<or> contains cs sub)"




section \<open>Events and responses\<close>

text \<open>
  The dict a vote handler builds. The first seven fields are the keys both handlers set
  (beside \<open>"type": "vote"\<close>); \<open>src/main.py\<close> adds the last three. The quote is what
  \<open>get_random_quote\<close> returned, a string unless \<open>quotes.json\<close> lists something else.
  The noise levels are floats read from the configuration and passed on unchanged.
\<close>

record effects =
  static_noise :: bool
  preset :: string
  static_noise_level :: real
  radio_noise_level :: real
  wind_noise_level :: real

record vote_payload =
  vote_score :: int
  vote_message :: string
  vote_quote :: json
  vote_audio_url :: string
  vote_level :: string
  vote_duration_ms :: int
  vote_ts :: string

record main_vote_payload = vote_payload +
  vote_enable_tts :: bool
  vote_enable_dingdong :: bool
  vote_effects :: effects

datatype event = Hello | Vote vote_payload | Main_vote main_vote_payload

text \<open>
  A response: what \<open>jsonify\<close> answers, status 200 and the JSON of its argument, or the
  page Flask answers when no rule matches the URL.
\<close>

datatype response_body = Event_body event | Ok_true | Not_found

record response =
  status_code :: nat
  body :: response_body

definition jsonify :: "response_body \<Rightarrow> response" where
  "jsonify b = \<lparr>status_code = 200, body = b\<rparr>"



section \<open>Voices (src/main.py)\<close>

text \<open>An entry of the catalog \<open>list_region_voices\<close> returns.\<close>

record voice_entry =
  voice_Id :: string
  SupportedEngines :: "string list"

text \<open>
  \<open>pick_engine_for_voice\<close>: in the dict comprehension a later entry replaces an earlier
  one with the same id.
\<close>

definition pick_engine_for_voice :: "string \<Rightarrow> voice_entry list \<Rightarrow> string" where
  "pick_engine_for_voice voice_id voices =
     (let engines = (case map_of (rev (map (\<lambda>v. (voice_Id v, v)) voices)) voice_id of
                       None \<Rightarrow> []
                     | Some v \<Rightarrow> SupportedEngines v)
      in if ''neural'' \<in> set engines then ''neural'' else ''standard'')"

text \<open>
  \<open>s.replace(bullet, ' ').replace(middle dot, ' ')\<close> on the UTF-8 bytes: the bullet
  U+2022 is E2 80 A2, the middle dot U+00B7 is C2 B7.
\<close>

fun replace_dots :: "string \<Rightarrow> string" where
  "replace_dots (a # b # c # cs) =
     (if [a, b, c] = [CHR 0xE2, CHR 0x80, CHR 0xA2] then CHR '' '' # replace_dots cs
      else if [a, b] = [CHR 0xC2, CHR 0xB7] then CHR '' '' # replace_dots (c # cs)
      else a # replace_dots (b # c # cs))"
| "replace_dots [a, b] = (if [a, b] = [CHR 0xC2, CHR 0xB7] then '' '' else [a, b])"
| "replace_dots s = s"

text \<open>\<open>max(tokens, key=len)\<close>: the first of the longest tokens.\<close>

fun longest :: "string list \<Rightarrow> string" where
  "longest [] = []"
| "longest (t # ts) = fold (\<lambda>u m. if length m < length u then u else m) ts t"

text \<open>
  \<open>sanitize_voice_id\<close>. Python walks the set of ids in an order of its own; the model
  walks them in catalog order. With the ASCII character tests, the model is the code on
  voice names written in ASCII of which at most one catalog id is a part.
\<close>

definition sanitize_voice_id :: "string \<Rightarrow> voice_entry list \<Rightarrow> string" where
  "sanitize_voice_id raw_voice voices =
     (let s = strip raw_voice
      in if s = [] then []
         else let ids = remdups (filter (\<lambda>i. i \<noteq> []) (map voice_Id voices))
              in if s \<in> set ids then s
                 else (case find (\<lambda>vid. contains s vid) ids of
                         Some vid \<Rightarrow> vid
                       | None \<Rightarrow>
                           (let tokens = filter isalpha (split (replace_dots s))
                            in if tokens \<noteq> [] then longest tokens else s)))"

section \<open>The world of the handlers\<close>

text \<open>
  \<open>quotes.json\<close> as \<open>src/app.py\<close> meets it: no file, a file that cannot be opened, a
  file that is not UTF-8, a file whose text \<open>json.load\<close> rejects, or a file holding the
  text of a JSON value.
\<close>

datatype quotes_disk =
    Quotes_absent
  | Quotes_unreadable
  | Quotes_not_utf8
  | Quotes_garbage
  | Quotes_doc json

text \<open>
  An entry of the audio index and the index file: absent, not parseable, parsed to
  something that is not an object, or parsed to an object of entries.
\<close>

record entry =
  entry_text :: string
  entry_voice :: string
  entry_engine :: string
  entry_format :: string
  entry_region :: string
  entry_filename :: string
  entry_created_ts :: string
  entry_play_count :: int

datatype index_disk =
    Index_absent
  | Index_garbage
  | Index_not_object
  | Index_doc "(string \<times> entry) list"

text \<open>What \<open>synthesize_speech\<close> answers: the audio bytes, or an exception.\<close>

datatype synth_result = Audio string | Fails error

text \<open>
  Everything outside the handlers that they read or change.
  \<^item> \<open>store\<close>, \<open>hub\<close>: the module-level \<open>DataStore\<close> and \<open>SSEHub\<close>.
  \<^item> \<open>quotes_file\<close>: \<open>quotes.json\<close> for \<open>src/app.py\<close>; \<open>merged_quotes\<close>: the dict
    \<open>load_quotes()\<close> of \<open>src/main.py\<close> returns (bundled defaults overlaid with
    \<open>quotes.json\<close>); \<open>MESSAGES\<close>: the dict \<open>load_messages()\<close> returned at import.
  \<^item> \<open>rng\<close>, \<open>draws\<close>: the numbers \<open>random.choice\<close> draws and how many were drawn.
  \<^item> \<open>now\<close>: the clock reading, formatted.
  \<^item> the configuration read from the environment, under its names.
  \<^item> \<open>client_ok\<close>: whether \<open>boto3.client\<close> returns a client; \<open>catalog\<close>: what
    \<open>list_region_voices\<close> returns (it asks the provider for its voices at every call,
    which is not recorded); \<open>provider\<close>: what \<open>synthesize_speech\<close> answers for
    \<open>Text\<close>, \<open>OutputFormat\<close>, \<open>VoiceId\<close> and \<open>Engine\<close> (\<open>None\<close> when not passed);
    \<open>synth_calls\<close>: the \<open>synthesize_speech\<close> requests made so far.
  \<^item> \<open>static_files\<close>: the files under the static folder, by relative path;
    \<open>audio_index\<close>: the file \<open>static/audio/audio_index.json\<close>.
\<close>

record world =
  store :: DataStore
  hub :: "event SSEHub"
  quotes_file :: quotes_disk
  merged_quotes :: "(string \<times> string list) list"
  MESSAGES :: "(string \<times> string) list"
  rng :: "nat \<Rightarrow> nat"
  draws :: nat
  now :: string
  BANNER_DURATION_MS :: int
  AWS_ACCESS_KEY_ID :: "string option"
  AWS_SECRET_ACCESS_KEY :: "string option"
  AWS_REGION :: string
  POLLY_VOICE_ID :: string
  POLLY_OUTPUT_FORMAT :: string
  ENABLE_TTS :: "string option"
  ENABLE_DINGDONG :: "string option"
  ADD_STATIC_NOISE :: bool
  EFFECT_PRESET :: string
  STATIC_NOISE_LEVEL :: real
  RADIO_NOISE_LEVEL :: real
  WIND_NOISE_LEVEL :: real
  client_ok :: bool
  catalog :: "voice_entry list"
  provider :: "string \<Rightarrow> string \<Rightarrow> string \<Rightarrow> string option \<Rightarrow> synth_result"
  synth_calls :: "(string \<times> string \<times> string \<times> string option) list"
  static_files :: "string \<Rightarrow> string option"
  audio_index :: index_disk

text \<open>
  \<open>os.environ.get(name, default).strip().lower() in {'1', 'true', 'yes', 'on'}\<close>
\<close>

definition env_flag :: "string option \<Rightarrow> string \<Rightarrow> bool" where
  "env_flag v dflt =
     (lower (strip (case v of None \<Rightarrow> dflt | Some s \<Rightarrow> s)) \<in>
        set [''1'', ''true'', ''yes'', ''on''])"

text \<open>\<open>random.choice(xs)\<close> on a list that is not empty.\<close>

definition choice :: "world \<Rightarrow> 'a list \<Rightarrow> 'a \<times> world" where
  "choice w xs = (xs ! (rng w (draws w) mod length xs), w\<lparr>draws := Suc (draws w)\<rparr>)"

text \<open>
  One \<open>synthesize_speech\<close> request: it is recorded, and the provider's answer returned.
\<close>

definition synthesize_speech ::
  "world \<Rightarrow> string \<Rightarrow> string \<Rightarrow> string \<Rightarrow> string option \<Rightarrow> synth_result \<times> world" where
  "synthesize_speech w text' fmt vid eng =
     (provider w text' fmt vid eng,
      w\<lparr>synth_calls := synth_calls w @ [(text', fmt, vid, eng)]\<rparr>)"

section \<open>The handlers of src/app.py\<close>





text \<open>\<open>not v\<close> for an optional string.\<close>

definition unset :: "string option \<Rightarrow> bool" where
  "unset v = (v = None \<or> v = Some [])"

text \<open>
  \<open>generate_audio_url\<close> of \<open>src/app.py\<close>, on a string. The parameter \<open>md5_12\<close> is
  \<open>hashlib.md5(s.encode('utf-8')).hexdigest()[:12]\<close>. Every exception inside the
  \<open>try\<close> ends in the empty locator.
\<close>

definition app_generate_audio_url ::
  "(string \<Rightarrow> string) \<Rightarrow> world \<Rightarrow> string \<Rightarrow> string \<times> world" where
  "app_generate_audio_url md5_12 w text' =
     (if unset (AWS_ACCESS_KEY_ID w) \<or> unset (AWS_SECRET_ACCESS_KEY w) then ('''', w)
      else
        (let text_hash = md5_12 text';
             audio_filename = ''quote_'' @ text_hash @ ''.'' @ POLLY_OUTPUT_FORMAT w
         in if static_files w audio_filename \<noteq> None then (''/static/'' @ audio_filename, w)
            else if \<not> client_ok w then ('''', w)
            else
              (case synthesize_speech w text' (POLLY_OUTPUT_FORMAT w) (POLLY_VOICE_ID w) None of
                 (Fails e, w1) \<Rightarrow> ('''', w1)
               | (Audio bytes, w1) \<Rightarrow>
                   (''/static/'' @ audio_filename,
                    w1\<lparr>static_files := (static_files w1)(audio_filename \<mapsto> bytes)\<rparr>))))"





text \<open>\<open>POST /reset\<close>\<close>

definition reset :: "world \<Rightarrow> response \<times> world" where
  "reset w =
     (let hello = Hello;
          w1 = w\<lparr>hub := broadcast (hub w) hello\<rparr>
      in (jsonify Ok_true, w1))"

text \<open>\<open>GET /stats\<close>\<close>

definition stats :: "(string \<Rightarrow> int option) \<Rightarrow> world \<Rightarrow> error + StatsView" where
  "stats int_of_str w =
     (case get_landings (store w) of
        Inl e \<Rightarrow> Inl e
      | Inr landings \<Rightarrow> compute_stats int_of_str landings)"

section \<open>The audio cache and the vote handler of src/main.py\<close>


text \<open>
  \<open>f"{text}|voice={vid}|engine={engine}|fmt={POLLY_OUTPUT_FORMAT}|region={AWS_REGION}"\<close>
  and its hash.
\<close>

definition key_material :: "string \<Rightarrow> string \<Rightarrow> string \<Rightarrow> string \<Rightarrow> string \<Rightarrow> string" where
  "key_material text' vid engine fmt region =
     text' @ ''|voice='' @ vid @ ''|engine='' @ engine @ ''|fmt='' @ fmt @ ''|region='' @ region"

definition key_hash_of ::
  "(string \<Rightarrow> string) \<Rightarrow> string \<Rightarrow> string \<Rightarrow> string \<Rightarrow> string \<Rightarrow> string \<Rightarrow> string" where
  "key_hash_of md5_12 text' vid engine fmt region =
     md5_12 (key_material text' vid engine fmt region)"

text \<open>
  \<open>f"quote_{safe_voice}_{engine}_{text_hash}.{POLLY_OUTPUT_FORMAT}"\<close>, where
  \<open>safe_voice\<close> keeps the alphanumeric characters, \<open>-\<close> and \<open>_\<close> of the voice id (the
  ASCII ones here: the model is the code on voice ids written in ASCII).
\<close>

definition audio_filename_of ::
  "(string \<Rightarrow> string) \<Rightarrow> string \<Rightarrow> string \<Rightarrow> string \<Rightarrow> string \<Rightarrow> string" where
  "audio_filename_of md5_12 text' vid engine fmt =
     (let text_hash = md5_12 text';
          safe_voice = filter (\<lambda>c. isalnum_char c \<or> c = CHR ''-'' \<or> c = CHR ''_'') vid
      in ''quote_'' @ safe_voice @ ''_'' @ engine @ ''_'' @ text_hash @ ''.'' @ fmt)"

text \<open>
  Loading the index in \<open>generate_audio_url\<close>: no file or a file that does not parse is
  the empty dict; a parsed value that is not a dict raises at \<open>index.get\<close>.
\<close>

fun load_index :: "index_disk \<Rightarrow> error + (string \<times> entry) list" where
  "load_index Index_absent = Inr []"
| "load_index Index_garbage = Inr []"
| "load_index Index_not_object = Inl AttributeError"
| "load_index (Index_doc index) = Inr index"

text \<open>
  The reuse test: the entry under the key, and its file at the new or at the legacy
  place.
\<close>

definition cached_url :: "world \<Rightarrow> (string \<times> entry) list \<Rightarrow> string \<Rightarrow> string option" where
  "cached_url w index key_hash =
     (case map_of index key_hash of
        None \<Rightarrow> None
      | Some e \<Rightarrow>
          if static_files w (''audio/'' @ entry_filename e) \<noteq> None
          then Some (''/static/audio/'' @ entry_filename e)
          else if static_files w (entry_filename e) \<noteq> None
          then Some (''/static/'' @ entry_filename e)
          else None)"

text \<open>
  After a synthesis that succeeded: write the artifact, put the entry into the index,
  write the index, answer the locator.
\<close>

definition save_audio ::
  "world \<Rightarrow> (string \<times> entry) list \<Rightarrow> string \<Rightarrow> string \<Rightarrow> string \<Rightarrow> string \<Rightarrow> string \<Rightarrow> string \<Rightarrow>
   string \<times> world" where
  "save_audio w index key_hash text' vid engine audio_filename bytes =
     (let w1 = w\<lparr>static_files := (static_files w)(''audio/'' @ audio_filename \<mapsto> bytes)\<rparr>;
          index' = AList.update key_hash
                     \<lparr>entry_text = text', entry_voice = vid, entry_engine = engine,
                      entry_format = POLLY_OUTPUT_FORMAT w, entry_region = AWS_REGION w,
                      entry_filename = audio_filename, entry_created_ts = now w,
                      entry_play_count = 0\<rparr> index;
          w2 = w1\<lparr>audio_index := Index_doc index'\<rparr>
      in (''/static/audio/'' @ audio_filename, w2))"

text \<open>
  The part of \<open>generate_audio_url\<close> after a miss: synthesize with the picked engine;
  on \<open>ClientError\<close> try the alternate engine once, with the file name and the key
  computed again for it; any other exception, and a second failure, end in the empty
  locator.
\<close>

definition synthesize_and_record ::
  "(string \<Rightarrow> string) \<Rightarrow> world \<Rightarrow> (string \<times> entry) list \<Rightarrow> string \<Rightarrow> string \<Rightarrow> string \<Rightarrow>
   string \<times> world" where
  "synthesize_and_record md5_12 w index text' vid engine =
     (let fmt = POLLY_OUTPUT_FORMAT w
      in case synthesize_speech w text' fmt vid (Some engine) of
           (Audio bytes, w1) \<Rightarrow>
             save_audio w1 index
               (key_hash_of md5_12 text' vid engine fmt (AWS_REGION w))
               text' vid engine
               (audio_filename_of md5_12 text' vid engine fmt) bytes
         | (Fails ClientError, w1) \<Rightarrow>
             (let alt = (if engine = ''neural'' then ''standard'' else ''neural'')
              in case synthesize_speech w1 text' fmt vid (Some alt) of
                   (Audio bytes, w2) \<Rightarrow>
                     save_audio w2 index
                       (key_hash_of md5_12 text' vid alt fmt (AWS_REGION w))
                       text' vid alt
                       (audio_filename_of md5_12 text' vid alt fmt) bytes
                 | (Fails e, w2) \<Rightarrow> ([], w2))
         | (Fails e, w1) \<Rightarrow> ([], w1))"

definition generate_audio_url ::
  "(string \<Rightarrow> string) \<Rightarrow> world \<Rightarrow> string \<Rightarrow> string \<times> world" where
  "generate_audio_url md5_12 w text' =
     (if \<not> env_flag (ENABLE_TTS w) ''true'' then ([], w)
      else
        (let vid_raw = strip (POLLY_VOICE_ID w)
         in if vid_raw = [] then ([], w)
            else if \<not> client_ok w then ([], w)
            else
              (let vid = sanitize_voice_id vid_raw (catalog w);
                   engine = pick_engine_for_voice vid (catalog w);
                   key_hash = key_hash_of md5_12 text' vid engine
                                (POLLY_OUTPUT_FORMAT w) (AWS_REGION w)
               in case load_index (audio_index w) of
                    Inl e \<Rightarrow> ([], w)
                  | Inr index \<Rightarrow>
                      (case cached_url w index key_hash of
                         Some url \<Rightarrow> (url, w)
                       | None \<Rightarrow> synthesize_and_record md5_12 w index text' vid engine))))"





section \<open>Example worlds\<close>

text \<open>
  A stand-in for the hash in the examples: it gives different strings different keys, as
  md5 does on the strings of the examples.
\<close>

definition example_hash :: "string \<Rightarrow> string" where
  "example_hash s = s"

text \<open>
  A world with an empty vote log, one subscriber, TTS enabled by default, the voice
  Joanna with both engines, a provider that answers every request, and nothing cached.
\<close>

definition example_world :: world where
  "example_world =
     \<lparr>store = \<lparr>path_file = Doc empty_log, tmp_file = Absent\<rparr>,
      hub = \<lparr>clients = [\<lparr>qid = 0, maxsize = 0, queue = []\<rparr>], next_qid = 1\<rparr>,
      quotes_file = Quotes_doc (JObj [(''quotes'', JObj [(''7'', JList [JStr ''Nice one.''])])]),
      merged_quotes = [(''7'', [''Nice one.''])],
      MESSAGES = [(''7'', ''Nice!'')],
      rng = (\<lambda>n. 0),
      draws = 0,
      now = ''2024-01-01T00:00:00Z'',
      BANNER_DURATION_MS = 8000,
      AWS_ACCESS_KEY_ID = Some ''id'',
      AWS_SECRET_ACCESS_KEY = Some ''secret'',
      AWS_REGION = ''us-east-1'',
      POLLY_VOICE_ID = ''Joanna'',
      POLLY_OUTPUT_FORMAT = ''mp3'',
      ENABLE_TTS = None,
      ENABLE_DINGDONG = None,
      ADD_STATIC_NOISE = False,
      EFFECT_PRESET = ''none'',
      STATIC_NOISE_LEVEL = 0,
      RADIO_NOISE_LEVEL = 0,
      WIND_NOISE_LEVEL = 0,
      client_ok = True,
      catalog = [\<lparr>voice_Id = ''Joanna'', SupportedEngines = [''neural'', ''standard'']\<rparr>],
      provider = (\<lambda>t f v g. Audio ''bytes''),
      synth_calls = [],
      static_files = Map.empty,
      audio_index = Index_absent\<rparr>"

text \<open>The same world with a provider that rejects every request.\<close>

definition failing_world :: world where
  "failing_world = example_world\<lparr>provider := (\<lambda>t f v g. Fails ClientError)\<rparr>"

text \<open>
  The same world with a provider that rejects the neural engine and accepts the
  standard one.
\<close>

definition fallback_world :: world where
  "fallback_world =
     example_world\<lparr>provider :=
       (\<lambda>t f v g. if g = Some ''neural'' then Fails ClientError else Audio ''bytes'')\<rparr>"


section \<open>The declared shape of quotes.json\<close>




section \<open>Synthesis that fails, and nothing cached\<close>






section \<open>The top list in the words of the specification\<close>

text \<open>
  The spec's \<open>top\<close>: the scores in descending order, ties in insertion order, cut to
  five. \<open>sort_key\<close> is the stable insertion sort of the library.
\<close>

definition top_spec :: "int list \<Rightarrow> int list" where
  "top_spec scores = take 5 (sort_key (\<lambda>s. - s) scores)"

section \<open>Properties of the vote store\<close>

lemma atomic_write_path [simp]: "path_file (atomic_write d data) = Doc data"
  by (simp add: atomic_write_def Let_def)

lemma atomic_write_tmp [simp]: "tmp_file (atomic_write d data) = Absent"
  by (simp add: atomic_write_def Let_def)

text \<open>
  The check of \<open>_ensure_file\<close> raises exactly on the values that are not an object
  holding a list under \<open>landings\<close>.
\<close>

lemma check_structure_invalid:
  "check_structure j = Inl ValueError \<longleftrightarrow>
   \<not> (\<exists>kvs xs. j = JObj kvs \<and> map_of kvs ''landings'' = Some (JList xs))"
  by (cases j) (auto split: option.splits json.splits)

lemma check_structure_valid:
  "check_structure j = Inr () \<longleftrightarrow>
   (\<exists>kvs xs. j = JObj kvs \<and> map_of kvs ''landings'' = Some (JList xs))"
  by (cases j) (auto split: option.splits json.splits)

lemma append_on_log:
  assumes "path_file d = Doc (JObj [(''landings'', JList xs)])"
  shows "append d score ts =
           Inr (atomic_write d
                  (JObj [(''landings'',
                          JList (xs @ [JObj [(''score'', JInt score), (''ts'', JStr ts)]]))]))"
  using assms by (simp add: append_def read_def landing_def)

lemma appends_on_log:
  "path_file d = Doc (JObj [(''landings'', JList xs)]) \<Longrightarrow>
   \<exists>d'. appends d rs = Inr d' \<and>
        path_file d' =
          Doc (JObj [(''landings'',
                      JList (xs @ map (\<lambda>(s, t). JObj [(''score'', JInt s), (''ts'', JStr t)]) rs))]) \<and>
        tmp_file d' = (if rs = [] then tmp_file d else Absent)"
proof (induction rs arbitrary: d xs)
  case Nil
  then show ?case by simp
next
  case (Cons r rs)
  obtain s t where r: "r = (s, t)" by (cases r)
  let ?x = "JObj [(''score'', JInt s), (''ts'', JStr t)]"
  let ?d1 = "atomic_write d (JObj [(''landings'', JList (xs @ [?x]))])"
  have a: "append d s t = Inr ?d1" using Cons.prems by (rule append_on_log)
  have p: "path_file ?d1 = Doc (JObj [(''landings'', JList (xs @ [?x]))])" by simp
  from Cons.IH [OF p] obtain d' where
    "appends ?d1 rs = Inr d'"
    "path_file d' =
       Doc (JObj [(''landings'',
                   JList ((xs @ [?x]) @ map (\<lambda>(s, t). JObj [(''score'', JInt s), (''ts'', JStr t)]) rs))])"
    "tmp_file d' = (if rs = [] then tmp_file ?d1 else Absent)"
    by blast
  then show ?case using a r by simp
qed

lemma get_landings_on_log:
  "path_file d = Doc (JObj [(''landings'', JList xs)]) \<Longrightarrow> get_landings d = Inr xs"
  by (simp add: get_landings_def read_def)

lemma ensure_file_on_log:
  "path_file d = Doc (JObj [(''landings'', JList xs)]) \<Longrightarrow> ensure_file d = d"
  by (simp add: ensure_file_def)

lemma ensure_file_heals:
  assumes "path_file d = Absent \<or> path_file d = Unreadable \<or> path_file d = Garbage \<or>
           (\<exists>j. path_file d = Doc j \<and>
                \<not> (\<exists>kvs xs. j = JObj kvs \<and> map_of kvs ''landings'' = Some (JList xs)))"
  shows "path_file (ensure_file d) = Doc (JObj [(''landings'', JList [])])"
proof -
  consider "path_file d = Absent" | "path_file d = Unreadable" | "path_file d = Garbage"
    | j where "path_file d = Doc j" "check_structure j = Inl ValueError"
    using assms check_structure_invalid by blast
  then show ?thesis
    by cases (simp_all add: ensure_file_def empty_log_def)
qed

text \<open>
  C4. Starting from an emptied store, any sequence of \<open>append\<close> calls succeeds; the file
  then holds, under \<open>landings\<close>, exactly the records \<open>{"score": score, "ts": ts}\<close> of the
  calls, in call order, and \<open>get_landings\<close> returns them. Opening the store again on the
  persisted file (\<open>DataStore.__init__\<close>) changes nothing and reads back the same
  sequence.
\<close>

theorem append_sequence_round_trip:
  "\<exists>d'. appends (DataStore_reset d) rs = Inr d' \<and>
        path_file d' =
          Doc (JObj [(''landings'',
                      JList (map (\<lambda>(score, ts). JObj [(''score'', JInt score), (''ts'', JStr ts)]) rs))]) \<and>
        get_landings d' =
          Inr (map (\<lambda>(score, ts). JObj [(''score'', JInt score), (''ts'', JStr ts)]) rs) \<and>
        DataStore_init d' = d' \<and>
        get_landings (DataStore_init d') =
          Inr (map (\<lambda>(score, ts). JObj [(''score'', JInt score), (''ts'', JStr ts)]) rs)"
proof -
  have "path_file (DataStore_reset d) = Doc (JObj [(''landings'', JList [])])"
    by (simp add: DataStore_reset_def empty_log_def)
  from appends_on_log [OF this, of rs] obtain d' where
    d': "appends (DataStore_reset d) rs = Inr d'"
        "path_file d' =
           Doc (JObj [(''landings'',
                       JList (map (\<lambda>(s, t). JObj [(''score'', JInt s), (''ts'', JStr t)]) rs))])"
    by auto
  have "DataStore_init d' = d'"
    using d'(2) by (simp add: DataStore_init_def ensure_file_on_log)
  then show ?thesis using d' by (auto simp: get_landings_on_log)
qed

text \<open>
  C3. When the vote-log file is absent, cannot be read, does not parse, or parses to a
  value that is not an object holding a list under \<open>landings\<close>, opening the store writes
  the empty log \<open>{"landings": []}\<close> (the model of \<open>DataStore.__init__\<close> has no error
  outcome); an \<open>append\<close> on the healed store succeeds and the file then holds exactly the
  one record \<open>{"score": score, "ts": ts}\<close>.
\<close>

theorem ensure_file_self_heals:
  assumes "path_file d = Absent \<or> path_file d = Unreadable \<or> path_file d = Garbage \<or>
           (\<exists>j. path_file d = Doc j \<and>
                \<not> (\<exists>kvs xs. j = JObj kvs \<and> map_of kvs ''landings'' = Some (JList xs)))"
  shows "path_file (DataStore_init d) = Doc (JObj [(''landings'', JList [])]) \<and>
         get_landings (DataStore_init d) = Inr [] \<and>
         (\<exists>d'. append (DataStore_init d) score ts = Inr d' \<and>
               path_file d' =
                 Doc (JObj [(''landings'',
                             JList [JObj [(''score'', JInt score), (''ts'', JStr ts)]])]) \<and>
               get_landings d' = Inr [JObj [(''score'', JInt score), (''ts'', JStr ts)]])"
proof -
  have h: "path_file (DataStore_init d) = Doc (JObj [(''landings'', JList [])])"
    using ensure_file_heals [OF assms] by (simp add: DataStore_init_def)
  have "append (DataStore_init d) score ts =
          Inr (atomic_write (DataStore_init d)
                 (JObj [(''landings'',
                         JList ([] @ [JObj [(''score'', JInt score), (''ts'', JStr ts)]]))]))"
    using h by (rule append_on_log)
  then show ?thesis using h by (simp add: get_landings_on_log)
qed

theorem ensure_file_self_heals_witness:
  "list_all
     (\<lambda>f. path_file (DataStore_init \<lparr>path_file = f, tmp_file = Absent\<rparr>) =
            Doc (JObj [(''landings'', JList [])]) \<and>
          (\<exists>d'. append (DataStore_init \<lparr>path_file = f, tmp_file = Absent\<rparr>) 7
                   ''2024-01-01T00:00:00Z'' = Inr d' \<and>
                path_file d' =
                  Doc (JObj [(''landings'',
                              JList [JObj [(''score'', JInt 7),
                                           (''ts'', JStr ''2024-01-01T00:00:00Z'')]])]) \<and>
                get_landings d' =
                  Inr [JObj [(''score'', JInt 7), (''ts'', JStr ''2024-01-01T00:00:00Z'')]]))
     [Absent, Unreadable, Garbage, Doc (JList []), Doc (JObj []),
      Doc (JObj [(''landings'', JInt 3)]), Doc (JStr ''landings'')]"
proof -
  have w: "path_file (DataStore_init \<lparr>path_file = f, tmp_file = Absent\<rparr>) =
             Doc (JObj [(''landings'', JList [])]) \<and>
           (\<exists>d'. append (DataStore_init \<lparr>path_file = f, tmp_file = Absent\<rparr>) 7
                    ''2024-01-01T00:00:00Z'' = Inr d' \<and>
                 path_file d' =
                   Doc (JObj [(''landings'',
                               JList [JObj [(''score'', JInt 7),
                                            (''ts'', JStr ''2024-01-01T00:00:00Z'')]])]) \<and>
                 get_landings d' =
                   Inr [JObj [(''score'', JInt 7), (''ts'', JStr ''2024-01-01T00:00:00Z'')]])"
    if "f = Absent \<or> f = Unreadable \<or> f = Garbage \<or>
        (\<exists>j. f = Doc j \<and>
             \<not> (\<exists>kvs xs. j = JObj kvs \<and> map_of kvs ''landings'' = Some (JList xs)))" for f
    using ensure_file_self_heals [of "\<lparr>path_file = f, tmp_file = Absent\<rparr>" 7 "''2024-01-01T00:00:00Z''"]
          that
    by simp
  show ?thesis
    by (simp add: w)
qed

section \<open>Properties of the stats\<close>

lemma scores_of_append:
  "scores_of P (xs @ ys) =
     (case scores_of P xs of
        Inl e \<Rightarrow> Inl e
      | Inr a \<Rightarrow> (case scores_of P ys of Inl e \<Rightarrow> Inl e | Inr b \<Rightarrow> Inr (a @ b)))"
  by (induction xs) (auto split: sum.splits)

lemma scores_of_landings:
  "scores_of P (map (\<lambda>(score, ts). landing score ts) rs) = Inr (map fst rs)"
  by (induction rs) (auto simp: landing_def)

lemma insort_key_indexed:
  "\<forall>p \<in> set ys. n < fst p \<Longrightarrow>
   map snd (insort_key (\<lambda>(idx, score). (- score, idx)) (n, x) ys) =
   insort_key (\<lambda>s. - s) (x::int) (map snd ys)"
  by (induction ys) (auto simp: less_eq_prod_def)

lemma enumerate_fst_bound: "p \<in> set (enumerate n xs) \<Longrightarrow> n \<le> fst p"
  by (auto simp: in_set_enumerate_eq)

lemma sort_key_indexed:
  "map snd (sort_key (\<lambda>(idx, score). (- score, idx)) (enumerate n xs)) =
   sort_key (\<lambda>s. - s) (xs :: int list)"
proof (induction xs arbitrary: n)
  case Nil
  then show ?case by simp
next
  case (Cons x xs)
  have "\<forall>p \<in> set (sort_key (\<lambda>(idx, score). (- score, idx)) (enumerate (Suc n) xs)). n < fst p"
    using enumerate_fst_bound [of _ "Suc n" xs] by fastforce
  then show ?case
    using Cons.IH [of "Suc n"] by (simp add: insort_key_indexed)
qed

lemma stats_top_spec: "stats_top (stats_of_scores scores) = top_spec scores"
  by (simp add: stats_of_scores_def top_spec_def Let_def take_map [symmetric] sort_key_indexed)

lemma top_spec_descending: "sorted_wrt (\<lambda>a b. b \<le> a) (top_spec scores)"
proof -
  have "sorted (map (\<lambda>s. - s) (sort_key (\<lambda>s. - s) scores))"
    by (rule sorted_sort_key)
  then have "sorted_wrt (\<lambda>a b. b \<le> a) (sort_key (\<lambda>s. - s) scores)"
    by (simp add: sorted_wrt_map)
  then show ?thesis
    unfolding top_spec_def by (rule sorted_wrt_take)
qed

text \<open>
  C5. For every sequence of votes as \<open>append\<close> stores them, \<open>compute_stats\<close> succeeds and
  its \<open>top\<close> is \<open>top_spec\<close> of the scores: the first five of the scores in descending
  order, equal scores keeping their insertion order, which is what sorting the indexed
  scores by \<open>(-score, index)\<close> gives (\<open>sort_key_indexed\<close>). It is descending and has
  five elements or all of them. For the scores 5, 9, 9, 3, 9 it is 9, 9, 9, 5, 3.
\<close>

theorem compute_stats_top:
  "(\<exists>st. compute_stats P (map (\<lambda>(score, ts). landing score ts) rs) = Inr st \<and>
         stats_top st = top_spec (map fst rs) \<and>
         sorted_wrt (\<lambda>a b. b \<le> a) (stats_top st) \<and>
         length (stats_top st) = min 5 (length rs)) \<and>
   stats_top (stats_of_scores [5, 9, 9, 3, 9]) = [9, 9, 9, 5, 3]"
proof -
  have c: "compute_stats P (map (\<lambda>(score, ts). landing score ts) rs) =
             Inr (stats_of_scores (map fst rs))"
    by (simp add: compute_stats_def scores_of_landings)
  have l: "length (top_spec (map fst rs)) = min 5 (length rs)"
    by (simp add: top_spec_def min.commute)
  have e: "stats_top (stats_of_scores [5, 9, 9, 3, 9]) = [9, 9, 9, 5, 3]"
    by (simp add: stats_of_scores_def)
  show ?thesis
    using c l e by (simp add: stats_top_spec top_spec_descending)
qed


text \<open>
  C10. A record (a JSON object) without a \<open>score\<close> key has the score 0: \<open>compute_stats\<close>
  treats it exactly as the same record with \<open>"score": 0\<close>, wherever it stands in the log.
  When the other records have scores, the result is the stats of the score list with 0
  at the record's place: it is counted, adds 0 to the sum of the average, and takes part
  in \<open>best\<close>, \<open>recent\<close> and \<open>top\<close> as 0.
\<close>

theorem missing_score_counts_as_zero:
  assumes "map_of r ''score'' = None"
  shows "score_of P (JObj r) = Inr 0 \<and>
         compute_stats P (xs @ JObj r # ys) =
           compute_stats P (xs @ JObj ((''score'', JInt 0) # r) # ys) \<and>
         (\<forall>a b. scores_of P xs = Inr a \<and> scores_of P ys = Inr b \<longrightarrow>
            compute_stats P (xs @ JObj r # ys) = Inr (stats_of_scores (a @ 0 # b)) \<and>
            stats_count (stats_of_scores (a @ 0 # b)) = length a + 1 + length b \<and>
            stats_average (stats_of_scores (a @ 0 # b)) =
              Round2_div (sum_list a + 0 + sum_list b) (length a + 1 + length b))"
proof -
  have z: "score_of P (JObj r) = Inr 0"
    using assms by simp
  have e: "scores_of P (xs @ JObj r # ys) = scores_of P (xs @ JObj ((''score'', JInt 0) # r) # ys)"
    using assms by (simp add: scores_of_append split: sum.splits)
  have g: "scores_of P (xs @ JObj r # ys) = Inr (a @ 0 # b)"
    if "scores_of P xs = Inr a" "scores_of P ys = Inr b" for a b
    using that assms by (simp add: scores_of_append)
  have n: "stats_count (stats_of_scores (a @ 0 # b)) = length a + 1 + length b \<and>
           stats_average (stats_of_scores (a @ 0 # b)) =
             Round2_div (sum_list a + 0 + sum_list b) (length a + 1 + length b)" for a b
    by (simp add: stats_of_scores_def Let_def)
  show ?thesis
    using z e g n by (simp add: compute_stats_def)
qed

theorem missing_score_counts_as_zero_witness:
  "compute_stats (\<lambda>s. None) [landing 7 ''t1'', JObj [(''ts'', JStr ''t2'')]] =
     Inr \<lparr>stats_count = 2, stats_average = Round2_div 7 2, stats_best = 7,
          stats_recent = [0, 7], stats_top = [7, 0]\<rparr> \<and>
   compute_stats (\<lambda>s. None) [JObj [(''ts'', JStr ''t2'')]] =
     Inr \<lparr>stats_count = 1, stats_average = Round2_div 0 1, stats_best = 0,
          stats_recent = [0], stats_top = [0]\<rparr>"
proof -
  have h: "map_of [(''ts'', JStr ''t2'')] ''score'' = None"
    by simp
  have a: "compute_stats (\<lambda>s. None) ([landing 7 ''t1''] @ JObj [(''ts'', JStr ''t2'')] # []) =
             Inr (stats_of_scores ([7] @ 0 # []))"
    using missing_score_counts_as_zero [OF h, of "\<lambda>s. None" "[landing 7 ''t1'']" "[]", THEN conjunct2, THEN conjunct2]
    by (simp add: landing_def)
  have b: "compute_stats (\<lambda>s. None) ([] @ JObj [(''ts'', JStr ''t2'')] # []) =
             Inr (stats_of_scores ([] @ 0 # []))"
    using missing_score_counts_as_zero [OF h, of "\<lambda>s. None" "[]" "[]", THEN conjunct2, THEN conjunct2]
    by simp
  show ?thesis
    using a b by (simp add: stats_of_scores_def eval_nat_numeral)
qed

section \<open>Properties of the broadcast hub\<close>

lemma length_broadcast_loop [simp]: "length (broadcast_loop qs p) = length qs"
  by (induction qs) auto

lemma broadcast_loop_nth:
  "i < length qs \<Longrightarrow>
   broadcast_loop qs p ! i = (case put_nowait (qs ! i) p of Inl e \<Rightarrow> qs ! i | Inr q' \<Rightarrow> q')"
proof (induction qs arbitrary: i)
  case Nil
  then show ?case by simp
next
  case (Cons q qs)
  then show ?case by (cases i) (simp_all split: sum.splits)
qed

text \<open>
  C8. \<open>broadcast\<close> is a total function of the hub and the event (it has no error
  outcome and no waiting step). It keeps the registered queues and their order; each
  queue on which \<open>put_nowait\<close> succeeds gets the event at its end, each queue on which it
  raises \<open>Full\<close> is left as it was, whatever happens on the other queues.
\<close>

theorem broadcast_best_effort:
  "length (clients (broadcast h p)) = length (clients h) \<and>
   next_qid (broadcast h p) = next_qid h \<and>
   (\<forall>i < length (clients h).
      qid (clients (broadcast h p) ! i) = qid (clients h ! i) \<and>
      maxsize (clients (broadcast h p) ! i) = maxsize (clients h ! i) \<and>
      queue (clients (broadcast h p) ! i) =
        (if put_nowait (clients h ! i) p = Inl Full then queue (clients h ! i)
         else queue (clients h ! i) @ [p]))"
  by (auto simp: broadcast_def broadcast_loop_nth put_nowait_def)

theorem broadcast_best_effort_witness:
  "clients (broadcast
      \<lparr>clients = [\<lparr>qid = 0, maxsize = 1, queue = [''old'']\<rparr>, \<lparr>qid = 1, maxsize = 0, queue = []\<rparr>],
       next_qid = 2\<rparr> ''ev'') =
     [\<lparr>qid = 0, maxsize = 1, queue = [''old'']\<rparr>, \<lparr>qid = 1, maxsize = 0, queue = [''ev'']\<rparr>]"
  using broadcast_best_effort
    [of "\<lparr>clients = [\<lparr>qid = 0, maxsize = 1, queue = [''old'']\<rparr>, \<lparr>qid = 1, maxsize = 0, queue = []\<rparr>],
         next_qid = 2\<rparr>" "''ev''"]
  by (simp add: broadcast_def put_nowait_def)

section \<open>Properties of the handlers\<close>

lemma choice_frame:
  "snd (choice w xs) = w\<lparr>draws := Suc (draws w)\<rparr>"
  by (simp add: choice_def)

lemma choice_member:
  "xs \<noteq> [] \<Longrightarrow> fst (choice w xs) \<in> set xs"
  by (simp add: choice_def)










lemma save_audio_changes:
  "snd (save_audio w index k t v e f b) =
     w\<lparr>synth_calls := synth_calls (snd (save_audio w index k t v e f b)),
       static_files := static_files (snd (save_audio w index k t v e f b)),
       audio_index := audio_index (snd (save_audio w index k t v e f b))\<rparr>"
  by (simp add: save_audio_def Let_def)














text \<open>
  C9. \<open>POST /reset\<close> answers 200 with \<open>{"ok": true}\<close> and changes nothing but the hub, on
  which it broadcasts the hello event: the store, and so the persisted vote log, is as
  before (\<open>DataStore.reset\<close> is not called).
\<close>

theorem reset_only_broadcasts:
  "reset w = (\<lparr>status_code = 200, body = Ok_true\<rparr>, w\<lparr>hub := broadcast (hub w) Hello\<rparr>) \<and>
   store (snd (reset w)) = store w \<and>
   get_landings (store (snd (reset w))) = get_landings (store w)"
  by (simp add: reset_def jsonify_def)







section \<open>Properties of the audio cache\<close>

lemma generate_audio_url_hit:
  assumes "env_flag (ENABLE_TTS w) ''true''"
    and "strip (POLLY_VOICE_ID w) \<noteq> []"
    and "client_ok w"
    and "load_index (audio_index w) = Inr index"
    and "cached_url w index
           (key_hash_of h t (sanitize_voice_id (strip (POLLY_VOICE_ID w)) (catalog w))
              (pick_engine_for_voice (sanitize_voice_id (strip (POLLY_VOICE_ID w)) (catalog w))
                 (catalog w))
              (POLLY_OUTPUT_FORMAT w) (AWS_REGION w)) = Some url"
  shows "generate_audio_url h w t = (url, w)"
  using assms by (simp add: generate_audio_url_def Let_def)

lemma generate_audio_url_miss:
  assumes "env_flag (ENABLE_TTS w) ''true''"
    and "strip (POLLY_VOICE_ID w) \<noteq> []"
    and "client_ok w"
    and "load_index (audio_index w) = Inr index"
    and "vid = sanitize_voice_id (strip (POLLY_VOICE_ID w)) (catalog w)"
    and "engine = pick_engine_for_voice vid (catalog w)"
    and "cached_url w index
           (key_hash_of h t vid engine (POLLY_OUTPUT_FORMAT w) (AWS_REGION w)) = None"
    and "provider w t (POLLY_OUTPUT_FORMAT w) vid (Some engine) = Audio b"
  shows "generate_audio_url h w t =
           (''/static/audio/'' @ audio_filename_of h t vid engine (POLLY_OUTPUT_FORMAT w),
            w\<lparr>synth_calls := synth_calls w @ [(t, POLLY_OUTPUT_FORMAT w, vid, Some engine)],
              static_files := (static_files w)
                (''audio/'' @ audio_filename_of h t vid engine (POLLY_OUTPUT_FORMAT w) \<mapsto> b),
              audio_index := Index_doc
                (AList.update
                   (key_hash_of h t vid engine (POLLY_OUTPUT_FORMAT w) (AWS_REGION w))
                   \<lparr>entry_text = t, entry_voice = vid, entry_engine = engine,
                    entry_format = POLLY_OUTPUT_FORMAT w, entry_region = AWS_REGION w,
                    entry_filename = audio_filename_of h t vid engine (POLLY_OUTPUT_FORMAT w),
                    entry_created_ts = now w, entry_play_count = 0\<rparr>
                   index)\<rparr>)"
  using assms
  by (simp add: generate_audio_url_def synthesize_and_record_def synthesize_speech_def
                save_audio_def Let_def)

text \<open>
  C6, as the code has it. With TTS enabled, a voice configured, a client and an index
  that loads: when the index holds the key of the request (text, sanitized voice, picked
  engine, format, region) and the file of the entry is on disk, \<open>generate_audio_url\<close>
  returns the stored locator and leaves the world as it is: no \<open>synthesize_speech\<close>
  request, no write to the artifact or the index. When nothing is cached for the key and
  the provider answers the picked engine, the first resolve makes exactly one request
  and a second, identical resolve is such a hit: it returns the same locator and changes
  nothing.
\<close>

theorem generate_audio_url_idempotent:
  assumes "env_flag (ENABLE_TTS w) ''true''"
    and "strip (POLLY_VOICE_ID w) \<noteq> []"
    and "client_ok w"
    and "load_index (audio_index w) = Inr index"
    and "vid = sanitize_voice_id (strip (POLLY_VOICE_ID w)) (catalog w)"
    and "engine = pick_engine_for_voice vid (catalog w)"
    and "key_hash = key_hash_of h t vid engine (POLLY_OUTPUT_FORMAT w) (AWS_REGION w)"
  shows "(\<forall>e. map_of index key_hash = Some e \<and>
              static_files w (''audio/'' @ entry_filename e) \<noteq> None \<longrightarrow>
            generate_audio_url h w t = (''/static/audio/'' @ entry_filename e, w)) \<and>
         (\<forall>url. cached_url w index key_hash = Some url \<longrightarrow>
            generate_audio_url h w t = (url, w)) \<and>
         (\<forall>b. cached_url w index key_hash = None \<and>
              provider w t (POLLY_OUTPUT_FORMAT w) vid (Some engine) = Audio b \<longrightarrow>
            synth_calls (snd (generate_audio_url h w t)) =
              synth_calls w @ [(t, POLLY_OUTPUT_FORMAT w, vid, Some engine)] \<and>
            fst (generate_audio_url h w t) \<noteq> [] \<and>
            generate_audio_url h (snd (generate_audio_url h w t)) t =
              generate_audio_url h w t)"
proof -
  have hit: "generate_audio_url h w t = (url, w)"
    if "cached_url w index key_hash = Some url" for url
    using generate_audio_url_hit [OF assms(1-4), of h t url] that assms(5-7) by simp
  have new: "generate_audio_url h w t = (''/static/audio/'' @ entry_filename e, w)"
    if "map_of index key_hash = Some e" "static_files w (''audio/'' @ entry_filename e) \<noteq> None"
    for e
    using that by (intro hit) (auto simp: cached_url_def)
  have again: "synth_calls (snd (generate_audio_url h w t)) =
                 synth_calls w @ [(t, POLLY_OUTPUT_FORMAT w, vid, Some engine)] \<and>
               fst (generate_audio_url h w t) \<noteq> [] \<and>
               generate_audio_url h (snd (generate_audio_url h w t)) t =
                 generate_audio_url h w t"
    if c: "cached_url w index key_hash = None"
      and p: "provider w t (POLLY_OUTPUT_FORMAT w) vid (Some engine) = Audio b" for b
  proof -
    let ?fn = "audio_filename_of h t vid engine (POLLY_OUTPUT_FORMAT w)"
    let ?e = "\<lparr>entry_text = t, entry_voice = vid, entry_engine = engine,
               entry_format = POLLY_OUTPUT_FORMAT w, entry_region = AWS_REGION w,
               entry_filename = ?fn, entry_created_ts = now w, entry_play_count = 0\<rparr>"
    let ?w1 = "w\<lparr>synth_calls := synth_calls w @ [(t, POLLY_OUTPUT_FORMAT w, vid, Some engine)],
                  static_files := (static_files w)(''audio/'' @ ?fn \<mapsto> b),
                  audio_index := Index_doc (AList.update key_hash ?e index)\<rparr>"
    have first: "generate_audio_url h w t = (''/static/audio/'' @ ?fn, ?w1)"
      using generate_audio_url_miss [OF assms(1-6) _ p, of h] c assms(7) by simp
    have cu: "cached_url ?w1 (AList.update key_hash ?e index) key_hash =
                Some (''/static/audio/'' @ ?fn)"
      by (simp add: cached_url_def update_conv')
    have second: "generate_audio_url h ?w1 t = (''/static/audio/'' @ ?fn, ?w1)"
      by (rule generate_audio_url_hit) (use assms cu in simp_all)
    show ?thesis
      using first second by simp
  qed
  show ?thesis
    using hit new again by blast
qed

theorem generate_audio_url_idempotent_witness:
  "synth_calls (snd (generate_audio_url example_hash example_world ''hi'')) =
     [(''hi'', ''mp3'', ''Joanna'', Some ''neural'')] \<and>
   fst (generate_audio_url example_hash example_world ''hi'') \<noteq> [] \<and>
   generate_audio_url example_hash (snd (generate_audio_url example_hash example_world ''hi'')) ''hi'' =
     generate_audio_url example_hash example_world ''hi''"
proof -
  have 1: "env_flag (ENABLE_TTS example_world) ''true''"
    by code_simp
  have 2: "strip (POLLY_VOICE_ID example_world) \<noteq> []"
    by code_simp
  have 3: "client_ok example_world"
    by (simp add: example_world_def)
  have 4: "load_index (audio_index example_world) = Inr []"
    by (simp add: example_world_def)
  have 5: "''Joanna'' = sanitize_voice_id (strip (POLLY_VOICE_ID example_world)) (catalog example_world)"
    by code_simp
  have 6: "''neural'' = pick_engine_for_voice ''Joanna'' (catalog example_world)"
    by code_simp
  have 7: "cached_url example_world []
             (key_hash_of example_hash ''hi'' ''Joanna'' ''neural''
                (POLLY_OUTPUT_FORMAT example_world) (AWS_REGION example_world)) = None"
    by (simp add: cached_url_def)
  have 8: "provider example_world ''hi'' (POLLY_OUTPUT_FORMAT example_world) ''Joanna''
             (Some ''neural'') = Audio ''bytes''"
    by (simp add: example_world_def)
  have 9: "synth_calls example_world = [] \<and> POLLY_OUTPUT_FORMAT example_world = ''mp3''"
    by (simp add: example_world_def)
  show ?thesis
    using generate_audio_url_idempotent [OF 1 2 3 4 5 6 refl, of example_hash "''hi''"] 7 8 9
    by simp
qed

text \<open>
  The claim C6 as stated fails: in the fallback world the provider rejects the picked
  engine (neural) and answers the alternate one. The first resolve stores its entry
  under the key of the alternate engine; the second, identical resolve looks for the key
  of the picked engine, misses, and synthesizes again: four requests, two of them
  answered, for two resolves of the same text. In the failing world, where the provider
  rejects every request, nothing is cached and each resolve asks both engines again.
\<close>

theorem resolve_twice_counterexample:
  "fst (generate_audio_url example_hash fallback_world ''hi'') =
     ''/static/audio/quote_Joanna_standard_hi.mp3'' \<and>
   synth_calls (snd (generate_audio_url example_hash fallback_world ''hi'')) =
     [(''hi'', ''mp3'', ''Joanna'', Some ''neural''),
      (''hi'', ''mp3'', ''Joanna'', Some ''standard'')] \<and>
   fst (generate_audio_url example_hash
          (snd (generate_audio_url example_hash fallback_world ''hi'')) ''hi'') =
     ''/static/audio/quote_Joanna_standard_hi.mp3'' \<and>
   synth_calls (snd (generate_audio_url example_hash
                       (snd (generate_audio_url example_hash fallback_world ''hi'')) ''hi'')) =
     [(''hi'', ''mp3'', ''Joanna'', Some ''neural''),
      (''hi'', ''mp3'', ''Joanna'', Some ''standard''),
      (''hi'', ''mp3'', ''Joanna'', Some ''neural''),
      (''hi'', ''mp3'', ''Joanna'', Some ''standard'')] \<and>
   fst (generate_audio_url example_hash failing_world ''hi'') = [] \<and>
   synth_calls (snd (generate_audio_url example_hash
                       (snd (generate_audio_url example_hash failing_world ''hi'')) ''hi'')) =
     [(''hi'', ''mp3'', ''Joanna'', Some ''neural''),
      (''hi'', ''mp3'', ''Joanna'', Some ''standard''),
      (''hi'', ''mp3'', ''Joanna'', Some ''neural''),
      (''hi'', ''mp3'', ''Joanna'', Some ''standard'')]"
  by code_simp

section \<open>Properties of the cache key\<close>

lemma split_at_last:
  "c \<notin> set ys \<Longrightarrow> c \<notin> set ys' \<Longrightarrow> xs @ c # ys = xs' @ c # ys' \<Longrightarrow> xs = xs' \<and> ys = ys'"
proof (induction xs arbitrary: xs')
  case Nil
  then show ?case by (cases xs') auto
next
  case (Cons a xs)
  then show ?case by (cases xs') auto
qed

lemma key_material_injective:
  assumes "CHR ''|'' \<notin> set v \<union> set e \<union> set f \<union> set r"
    and "CHR ''|'' \<notin> set v' \<union> set e' \<union> set f' \<union> set r'"
    and "key_material t v e f r = key_material t' v' e' f' r'"
  shows "t = t' \<and> v = v' \<and> e = e' \<and> f = f' \<and> r = r'"
proof -
  have 1: "(t @ ''|voice='' @ v @ ''|engine='' @ e @ ''|fmt='' @ f) @ CHR ''|'' # (''region='' @ r) =
           (t' @ ''|voice='' @ v' @ ''|engine='' @ e' @ ''|fmt='' @ f') @ CHR ''|'' # (''region='' @ r')"
    using assms(3) by (simp add: key_material_def)
  have r: "t @ ''|voice='' @ v @ ''|engine='' @ e @ ''|fmt='' @ f =
           t' @ ''|voice='' @ v' @ ''|engine='' @ e' @ ''|fmt='' @ f' \<and> r = r'"
    using split_at_last [OF _ _ 1] assms(1,2) by simp
  then have 2: "(t @ ''|voice='' @ v @ ''|engine='' @ e) @ CHR ''|'' # (''fmt='' @ f) =
                (t' @ ''|voice='' @ v' @ ''|engine='' @ e') @ CHR ''|'' # (''fmt='' @ f')"
    by simp
  have f: "t @ ''|voice='' @ v @ ''|engine='' @ e = t' @ ''|voice='' @ v' @ ''|engine='' @ e' \<and> f = f'"
    using split_at_last [OF _ _ 2] assms(1,2) by simp
  then have 3: "(t @ ''|voice='' @ v) @ CHR ''|'' # (''engine='' @ e) =
                (t' @ ''|voice='' @ v') @ CHR ''|'' # (''engine='' @ e')"
    by simp
  have e: "t @ ''|voice='' @ v = t' @ ''|voice='' @ v' \<and> e = e'"
    using split_at_last [OF _ _ 3] assms(1,2) by simp
  then have 4: "t @ CHR ''|'' # (''voice='' @ v) = t' @ CHR ''|'' # (''voice='' @ v')"
    by simp
  have v: "t = t' \<and> v = v'"
    using split_at_last [OF _ _ 4] assms(1,2) by simp
  show ?thesis
    using r f e v by simp
qed

text \<open>
  C7, as the code has it. The cache key of \<open>src/main.py\<close> is the hash of a key material
  that is a function of exactly the tuple (text, voice, engine, format, region), so equal
  tuples have equal keys whatever was synthesized before. When the voice, the engine, the
  format and the region contain no \<open>|\<close>, two tuples have the same key material only if
  they are the same tuple; two different tuples then share a key only when the hash maps
  their two key materials to the same value.
\<close>

theorem cache_key_of_tuple:
  assumes "CHR ''|'' \<notin> set v \<union> set e \<union> set f \<union> set r"
    and "CHR ''|'' \<notin> set v' \<union> set e' \<union> set f' \<union> set r'"
  shows "(key_material t v e f r = key_material t' v' e' f' r') =
           (t = t' \<and> v = v' \<and> e = e' \<and> f = f' \<and> r = r') \<and>
         (key_hash_of h t v e f r = key_hash_of h t' v' e' f' r' \<longrightarrow>
            (t = t' \<and> v = v' \<and> e = e' \<and> f = f' \<and> r = r') \<or>
            (key_material t v e f r \<noteq> key_material t' v' e' f' r' \<and>
             h (key_material t v e f r) = h (key_material t' v' e' f' r')))"
  using key_material_injective [OF assms, of t t']
  by (auto simp: key_hash_of_def)

theorem cache_key_of_tuple_witness:
  "CHR ''|'' \<notin> set ''Joanna'' \<union> set ''neural'' \<union> set ''mp3'' \<union> set ''us-east-1'' \<and>
   CHR ''|'' \<notin> set ''Joanna'' \<union> set ''neural'' \<union> set ''mp3'' \<union> set ''eu-west-1'' \<and>
   key_material ''hi'' ''Joanna'' ''neural'' ''mp3'' ''us-east-1'' \<noteq>
     key_material ''hi'' ''Joanna'' ''neural'' ''mp3'' ''eu-west-1''"
proof -
  have 1: "CHR ''|'' \<notin> set ''Joanna'' \<union> set ''neural'' \<union> set ''mp3'' \<union> set ''us-east-1''"
    by simp
  have 2: "CHR ''|'' \<notin> set ''Joanna'' \<union> set ''neural'' \<union> set ''mp3'' \<union> set ''eu-west-1''"
    by simp
  show ?thesis
    using cache_key_of_tuple [OF 1 2, of "''hi''" "''hi''" example_hash] 1 2 by simp
qed

text \<open>
  The claim C7 as stated fails. Two different tuples can have the same key material,
  and so the same key under any hash. A request that differs from an earlier one in the
  region only gets another key and the same artifact file: it is synthesized again into
  the file of the first, and both index entries name that file. In \<open>src/app.py\<close> the
  file name is made from the text and the format: after the voice is changed, the same
  text resolves to the file synthesized with the old voice, without a request.
\<close>

theorem cache_key_counterexample:
  "key_material ''a|voice=b'' ''c'' ''neural'' ''mp3'' ''us-east-1'' =
     key_material ''a'' ''b|voice=c'' ''neural'' ''mp3'' ''us-east-1'' \<and>
   fst (generate_audio_url example_hash example_world ''hi'') =
     ''/static/audio/quote_Joanna_neural_hi.mp3'' \<and>
   fst (generate_audio_url example_hash
          ((snd (generate_audio_url example_hash example_world ''hi''))
             \<lparr>AWS_REGION := ''eu-west-1''\<rparr>) ''hi'') =
     ''/static/audio/quote_Joanna_neural_hi.mp3'' \<and>
   map (\<lambda>(k, e). (k, entry_region e, entry_filename e))
     (projr (load_index (audio_index (snd (generate_audio_url example_hash
          ((snd (generate_audio_url example_hash example_world ''hi''))
             \<lparr>AWS_REGION := ''eu-west-1''\<rparr>) ''hi''))))) =
     [(''hi|voice=Joanna|engine=neural|fmt=mp3|region=us-east-1'', ''us-east-1'',
       ''quote_Joanna_neural_hi.mp3''),
      (''hi|voice=Joanna|engine=neural|fmt=mp3|region=eu-west-1'', ''eu-west-1'',
       ''quote_Joanna_neural_hi.mp3'')] \<and>
   fst (app_generate_audio_url example_hash example_world ''hi'') = ''/static/quote_hi.mp3'' \<and>
   fst (app_generate_audio_url example_hash
          ((snd (app_generate_audio_url example_hash example_world ''hi''))
             \<lparr>POLLY_VOICE_ID := ''Matthew''\<rparr>) ''hi'') = ''/static/quote_hi.mp3'' \<and>
   synth_calls (snd (app_generate_audio_url example_hash
          ((snd (app_generate_audio_url example_hash example_world ''hi''))
             \<lparr>POLLY_VOICE_ID := ''Matthew''\<rparr>) ''hi'')) =
     [(''hi'', ''mp3'', ''Joanna'', None)]"
  by code_simp

end
